theory Spec2Isabelle
  imports Main "HOL-Library.Word"
begin

section \<open>Values of the Go program\<close>

text \<open>
  Go's \<open>int\<close> on a 64-bit platform. Exit codes are only passed along, never computed
  with, so no theorem below depends on the width.
\<close>

type_synonym go_int = "64 word"

text \<open>
  A \<open>[]byte\<close>: the nil slice and a slice with contents are different values, and
  \<open>WithMetadata\<close> stores a pointer to either.
\<close>

datatype byte_slice = NilSlice | Slice "8 word list"

text \<open>
  How a call ends: it returns a value, it panics (the panic unwinds the stack and runs
  the deferred calls of every frame it leaves), or it ends the process through
  \<open>os.Exit\<close> (no deferred call runs).
\<close>

datatype panic = AssertionFailure string | NilPointerDereference | UserPanic string

datatype 'a outcome = Returned 'a | Panicked panic | OsExit go_int

subsection \<open>Errors\<close>

text \<open>
  \<open>os.ProcessState\<close> as far as \<open>ExitCode\<close> reads it: the wait status of the
  process, which says whether it exited (and with which code), was ended by a signal, or
  has not exited.
\<close>

datatype WaitStatus = Exited go_int | Signaled go_int | Stopped

text \<open>
  \<open>exec.ExitError\<close> of the standard library: the embedded \<open>*os.ProcessState\<close>
  (a pointer, so possibly nil) and the captured standard error.
\<close>

record exec_ExitError =
  ProcessState :: "WaitStatus option"
  Stderr :: byte_slice

text \<open>
  Modelled from the spec: the declaration of \<open>exitError\<close> is not in \<open>climate.go\<close>,
  which only reads its field \<open>code\<close>. The spec describes it as a domain error that
  additionally carries an intended process exit code; \<open>errs\<close> are the errors it
  carries along.
\<close>

datatype 'e exitError = ExitError (code: go_int) (errs: "'e list")

text \<open>
  A non-nil \<open>error\<close> interface value, by dynamic type: a \<open>*exitError\<close>, a
  \<open>*exec.ExitError\<close> (either pointer may be nil inside a non-nil interface), or a
  value of any other type, with its message and the errors that \<open>Unwrap\<close> gives
  (\<open>errors.New\<close> wraps none, \<open>fmt.Errorf\<close> with \<open>%w\<close> wraps its operands).
\<close>

datatype go_error =
    ExitErrorPtr "go_error exitError option"
  | ExecExitErrorPtr "exec_ExitError option"
  | OtherError string "go_error list"

text \<open>The interface type \<open>error\<close>: nil, or a value with a dynamic type.\<close>

type_synonym error = "go_error option"

text \<open>
  \<open>(*exec.ExitError).ExitCode\<close>, promoted from \<open>*os.ProcessState\<close>: the exit code of
  the exited process, or -1 if the state is nil, the process has not exited or a signal
  ended it.
\<close>

fun ExitCode :: "exec_ExitError \<Rightarrow> go_int" where
  "ExitCode e =
     (case ProcessState e of
        None \<Rightarrow> - 1
      | Some (Exited n) \<Rightarrow> n
      | Some _ \<Rightarrow> - 1)"

subsection \<open>Contexts, plans and run options\<close>

text \<open>
  A \<open>context.Context\<close>: the background context, a context the caller built (with an
  identity and the instant, if any, at which the caller's side cancels it), or the child
  that \<open>context.WithCancel\<close> derives from a parent.
\<close>

datatype Context = Background | Caller nat "nat option" | WithCancel Context

text \<open>
  The interface \<open>plan\<close> has the single method \<open>execute\<close>; its implementations
  (\<open>funcPlan\<close>, \<open>structPlan\<close>) run the command-line parser and the user's code, so a
  call may return an error value, panic or exit. The type of the decoded metadata is left
  open.
\<close>

record 'm plan =
  execute :: "Context \<Rightarrow> 'm option \<Rightarrow> error outcome"

record runOptions =
  metadata :: "byte_slice option"

type_synonym modifier = "runOptions \<Rightarrow> runOptions"

text \<open>What a run does to the world around it, in order.\<close>

datatype 'm event =
    EvDecode byte_slice
  | EvWithCancel Context
  | is_EvExecute: EvExecute Context "'m option" "error outcome"
  | EvCancel Context
  | EvExit go_int

subsection \<open>Reflection\<close>

text \<open>The kinds of the package \<open>reflect\<close>.\<close>

datatype reflect_Kind =
    reflect_Invalid | reflect_Bool
  | reflect_Int | reflect_Int8 | reflect_Int16 | reflect_Int32 | reflect_Int64
  | reflect_Uint | reflect_Uint8 | reflect_Uint16 | reflect_Uint32 | reflect_Uint64
  | reflect_Uintptr | reflect_Float32 | reflect_Float64
  | reflect_Complex64 | reflect_Complex128
  | reflect_Array | reflect_Chan | reflect_Func | reflect_Interface | reflect_Map
  | reflect_Pointer | reflect_Slice | reflect_String | reflect_Struct
  | reflect_UnsafePointer

text \<open>
  A \<open>reflect.Type\<close>: a type with the text that \<open>%v\<close> prints for it and its kind,
  or the pointer type \<open>*T\<close> to a type \<open>T\<close>.
\<close>

datatype rtype = NamedType string reflect_Kind | PointerTo rtype

fun Kind :: "rtype \<Rightarrow> reflect_Kind" where
  "Kind (NamedType name k) = k"
| "Kind (PointerTo t) = reflect_Pointer"

fun Elem :: "rtype \<Rightarrow> rtype option" where
  "Elem (PointerTo t) = Some t"
| "Elem (NamedType name k) = None"

fun rtype_String :: "rtype \<Rightarrow> string" where
  "rtype_String (NamedType name k) = name"
| "rtype_String (PointerTo t) = ''*'' @ rtype_String t"

text \<open>
  A value of type \<open>any\<close>: nil, or a dynamic type with a value of it. \<open>reflect.TypeOf\<close>
  of nil is the nil \<open>Type\<close>; \<open>reflect.ValueOf\<close> of nil is the zero \<open>Value\<close>.
\<close>

datatype 'v any = Nil | Any rtype 'v

datatype 'v Value = ZeroValue | Value rtype 'v

fun TypeOf :: "'v any \<Rightarrow> rtype option" where
  "TypeOf Nil = None"
| "TypeOf (Any t v) = Some t"

fun ValueOf :: "'v any \<Rightarrow> 'v Value" where
  "ValueOf Nil = ZeroValue"
| "ValueOf (Any t v) = Value t v"

text \<open>
  The struct \<open>reflection\<close> with the three fields that the composite literals of
  \<open>Func\<close> and \<open>Struct\<close> set (a field left out is nil), and the two plans built on
  it. The subcommands are pointers, so each may be nil.
\<close>

datatype 'v reflection =
  Reflection (ptr: "'v reflection option") (ot: "rtype option") (ov: "'v Value option")

datatype 'v funcPlan = FuncPlan "'v reflection"

datatype 'v structPlan = StructPlan "'v reflection" "'v structPlan option list"

section \<open>climate.go\<close>

text \<open>
  \<open>Func\<close>: \<open>t.Kind()\<close> on the nil \<open>Type\<close> of a nil argument is a nil
  dereference; \<open>assert.Truef\<close> panics with its formatted message when the kind is not
  \<open>reflect.Func\<close> (the failure the specification calls InvalidShapeKind).
\<close>

definition Func :: "'v any \<Rightarrow> 'v funcPlan outcome" where
  "Func f =
     (case TypeOf f of
        None \<Rightarrow> Panicked NilPointerDereference
      | Some t \<Rightarrow>
          if Kind t = reflect_Func
          then (let v = ValueOf f
                in Returned (FuncPlan (Reflection None (Some t) (Some v))))
          else Panicked (AssertionFailure (''not a func: '' @ rtype_String t)))"

text \<open>
  \<open>Struct[T]\<close>: the type parameter is an argument; \<open>ptr\<close> is the type of
  \<open>(*T)(nil)\<close>, that is \<open>*T\<close>, and \<open>t\<close> its element type.
\<close>

definition Struct :: "rtype \<Rightarrow> 'v structPlan option list \<Rightarrow> 'v structPlan outcome" where
  "Struct T subcommands =
     (let ptr = PointerTo T
      in case Elem ptr of
           None \<Rightarrow> Panicked (UserPanic ''reflect: Elem of invalid type'')
         | Some t \<Rightarrow>
             if Kind t = reflect_Struct
             then Returned
                    (StructPlan (Reflection (Some (Reflection None (Some ptr) None)) (Some t) None)
                       subcommands)
             else Panicked (AssertionFailure (''not a struct: '' @ rtype_String t)))"

text \<open>
  \<open>exitCode\<close>: nil is 0; the type switch looks at the dynamic type of the error
  itself. Reading \<open>err.code\<close> or calling \<open>err.ExitCode()\<close> through a nil pointer
  panics.
\<close>

fun exitCode :: "error \<Rightarrow> go_int outcome" where
  "exitCode None = Returned 0"
| "exitCode (Some (ExitErrorPtr (Some err))) = Returned (code err)"
| "exitCode (Some (ExitErrorPtr None)) = Panicked NilPointerDereference"
| "exitCode (Some (ExecExitErrorPtr (Some err))) = Returned (ExitCode err)"
| "exitCode (Some (ExecExitErrorPtr None)) = Panicked NilPointerDereference"
| "exitCode (Some (OtherError msg causes)) = Returned 1"

definition WithMetadata :: "byte_slice \<Rightarrow> modifier" where
  "WithMetadata b = (\<lambda>opts. opts\<lparr>metadata := Some b\<rparr>)"

text \<open>
  \<open>Run\<close>. \<open>internal.DecodeAsMetadata\<close> is not in \<open>climate.go\<close> and is a parameter:
  it returns the decoded metadata or fails. The result is paired with the events of the
  run. The modifiers are applied in order to the zero \<open>runOptions\<close>; the payload is
  decoded only if one is set; then the child context is created, its \<open>cancel\<close> is
  deferred, and the plan is executed. The deferred \<open>cancel\<close> runs when \<open>execute\<close>
  (or \<open>exitCode\<close>) returns or panics, not when the process exits inside it.
\<close>

definition Run ::
  "(byte_slice \<Rightarrow> 'm outcome) \<Rightarrow> Context \<Rightarrow> 'm plan \<Rightarrow> modifier list
     \<Rightarrow> go_int outcome \<times> 'm event list" where
  "Run DecodeAsMetadata ctx p mods =
     (let opts = fold (\<lambda>modify opts. modify opts) mods \<lparr>metadata = None\<rparr>;
          (decoded, tr) =
            (case metadata opts of
               None \<Rightarrow> (Returned None, [])
             | Some b \<Rightarrow>
                 (case DecodeAsMetadata b of
                    Returned m \<Rightarrow> (Returned (Some m), [EvDecode b])
                  | Panicked x \<Rightarrow> (Panicked x, [EvDecode b])
                  | OsExit n \<Rightarrow> (OsExit n, [EvDecode b])))
      in case decoded of
           Panicked x \<Rightarrow> (Panicked x, tr)
         | OsExit n \<Rightarrow> (OsExit n, tr)
         | Returned md \<Rightarrow>
             (let ctx' = WithCancel ctx;
                  r = execute p ctx' md
              in case r of
                   Returned err \<Rightarrow>
                     (exitCode err,
                      tr @ [EvWithCancel ctx, EvExecute ctx' md r, EvCancel ctx'])
                 | Panicked x \<Rightarrow>
                     (Panicked x,
                      tr @ [EvWithCancel ctx, EvExecute ctx' md r, EvCancel ctx'])
                 | OsExit n \<Rightarrow>
                     (OsExit n, tr @ [EvWithCancel ctx, EvExecute ctx' md r])))"

text \<open>
  \<open>RunAndExit\<close>: \<open>os.Exit(Run(context.Background(), p, mods...))\<close>. The call of
  \<open>os.Exit\<close> is reached only when \<open>Run\<close> returns.
\<close>

definition RunAndExit ::
  "(byte_slice \<Rightarrow> 'm outcome) \<Rightarrow> 'm plan \<Rightarrow> modifier list \<Rightarrow> unit outcome \<times> 'm event list" where
  "RunAndExit DecodeAsMetadata p mods =
     (case Run DecodeAsMetadata Background p mods of
        (Returned n, tr) \<Rightarrow> (OsExit n, tr @ [EvExit n])
      | (Panicked x, tr) \<Rightarrow> (Panicked x, tr)
      | (OsExit n, tr) \<Rightarrow> (OsExit n, tr))"

section \<open>Observing a run\<close>

text \<open>The payloads decoded, the parents of the contexts created, the contexts cancelled and
  the arguments of the calls of \<open>execute\<close>, each in the order of the run.\<close>

primrec decoded_payloads :: "'m event list \<Rightarrow> byte_slice list" where
  "decoded_payloads [] = []"
| "decoded_payloads (ev # tr) =
     (case ev of EvDecode b \<Rightarrow> b # decoded_payloads tr | _ \<Rightarrow> decoded_payloads tr)"

primrec created_from :: "'m event list \<Rightarrow> Context list" where
  "created_from [] = []"
| "created_from (ev # tr) =
     (case ev of EvWithCancel parent \<Rightarrow> parent # created_from tr | _ \<Rightarrow> created_from tr)"

primrec cancelled :: "'m event list \<Rightarrow> Context list" where
  "cancelled [] = []"
| "cancelled (ev # tr) =
     (case ev of EvCancel c \<Rightarrow> c # cancelled tr | _ \<Rightarrow> cancelled tr)"

primrec executed_with :: "'m event list \<Rightarrow> (Context \<times> 'm option) list" where
  "executed_with [] = []"
| "executed_with (ev # tr) =
     (case ev of EvExecute c md r \<Rightarrow> (c, md) # executed_with tr | _ \<Rightarrow> executed_with tr)"

primrec exits :: "'m event list \<Rightarrow> go_int list" where
  "exits [] = []"
| "exits (ev # tr) = (case ev of EvExit n \<Rightarrow> n # exits tr | _ \<Rightarrow> exits tr)"

text \<open>The field \<open>opts.metadata\<close> after the loop over the modifiers.\<close>

definition payload :: "modifier list \<Rightarrow> byte_slice option" where
  "payload mods = metadata (fold (\<lambda>modify opts. modify opts) mods \<lparr>metadata = None\<rparr>)"

text \<open>Decoding does not fail: there is no payload, or the decoder returns for it.\<close>

definition decoding_succeeds :: "(byte_slice \<Rightarrow> 'm outcome) \<Rightarrow> modifier list \<Rightarrow> bool" where
  "decoding_succeeds dec mods =
     (case payload mods of
        None \<Rightarrow> True
      | Some b \<Rightarrow> (case dec b of Returned m \<Rightarrow> True | _ \<Rightarrow> False))"

text \<open>
  The variable \<open>md\<close> of \<open>Run\<close> when line 93 is left: nil without a payload, the
  decoded metadata with one, or the failure of the decoder.
\<close>

definition decoded_metadata ::
  "(byte_slice \<Rightarrow> 'm outcome) \<Rightarrow> modifier list \<Rightarrow> 'm option outcome" where
  "decoded_metadata dec mods =
     (case payload mods of
        None \<Rightarrow> Returned None
      | Some b \<Rightarrow>
          (case dec b of
             Returned m \<Rightarrow> Returned (Some m)
           | Panicked x \<Rightarrow> Panicked x
           | OsExit n \<Rightarrow> OsExit n))"

text \<open>The argument of \<open>Func\<close> is a function: it is not nil and its kind is \<open>reflect.Func\<close>.\<close>

fun callable :: "'v any \<Rightarrow> bool" where
  "callable Nil = False"
| "callable (Any t v) = (Kind t = reflect_Func)"

section \<open>Examples used by the witnesses\<close>

text \<open>
  A decoder for the examples, with byte lists as metadata: a payload that starts with
  the byte 1 decodes to the bytes after it, any other payload is malformed and the
  decoder panics.
\<close>

fun example_decoder :: "byte_slice \<Rightarrow> 8 word list outcome" where
  "example_decoder (Slice (b # bs)) =
     (if b = 1 then Returned bs else Panicked (AssertionFailure ''malformed metadata''))"
| "example_decoder _ = Panicked (AssertionFailure ''malformed metadata'')"

text \<open>A plan whose \<open>execute\<close> ends the same way whatever it is given.\<close>

definition always :: "error outcome \<Rightarrow> 'm plan" where
  "always r = \<lparr>execute = (\<lambda>ctx md. r)\<rparr>"

text \<open>
  Whether a context is cancelled from the caller's side at some instant: the child that
  \<open>WithCancel\<close> derives is cancelled when its parent is.
\<close>

fun cancelled_by_caller :: "Context \<Rightarrow> bool" where
  "cancelled_by_caller Background = False"
| "cancelled_by_caller (Caller i t) = (t \<noteq> None)"
| "cancelled_by_caller (WithCancel parent) = cancelled_by_caller parent"

text \<open>
  A plan that watches its context: it returns \<open>context.Canceled\<close> if the context is
  cancelled while it waits, and nil otherwise.
\<close>

definition watching :: "'m plan" where
  "watching =
     \<lparr>execute = (\<lambda>ctx md.
        if cancelled_by_caller ctx then Returned (Some (OtherError ''context canceled'' []))
        else Returned None)\<rparr>"

section \<open>The exit code of a run\<close>

text \<open>An error that is neither a \<open>*exitError\<close> nor a \<open>*exec.ExitError\<close>.\<close>

fun plain_domain_error :: "error \<Rightarrow> bool" where
  "plain_domain_error (Some (OtherError msg causes)) = True"
| "plain_domain_error _ = False"

text \<open>
  \<open>e\<close> wraps \<open>c\<close>: \<open>c\<close> is reached from \<open>e\<close> by unwrapping once or more.
\<close>

fun unwrap :: "go_error \<Rightarrow> go_error list" where
  "unwrap (OtherError msg causes) = causes"
| "unwrap (ExitErrorPtr (Some x)) = errs x"
| "unwrap _ = []"

inductive wraps :: "go_error \<Rightarrow> go_error \<Rightarrow> bool" where
  direct: "c \<in> set (unwrap e) \<Longrightarrow> wraps e c"
| deeper: "d \<in> set (unwrap e) \<Longrightarrow> wraps d c \<Longrightarrow> wraps e c"

text \<open>
  If \<open>execute\<close> was called in a run, the run ends as the call did, with the error it
  returned mapped by \<open>exitCode\<close>.
\<close>

lemma Run_executed:
  assumes "EvExecute c md r \<in> set (snd (Run dec ctx p mods))"
  shows "fst (Run dec ctx p mods) =
           (case r of Returned err \<Rightarrow> exitCode err | Panicked x \<Rightarrow> Panicked x | OsExit n \<Rightarrow> OsExit n)"
  using assms
  by (auto simp: Run_def Let_def split: option.splits outcome.splits)

text \<open>
  Without modifiers nothing is decoded: the context is created, the plan is executed with
  nil metadata, and the context is cancelled unless the process exited.
\<close>

lemma Run_no_mods:
  "Run dec ctx p [] =
     (case execute p (WithCancel ctx) None of
        Returned err \<Rightarrow>
          (exitCode err,
           [EvWithCancel ctx, EvExecute (WithCancel ctx) None (Returned err),
            EvCancel (WithCancel ctx)])
      | Panicked x \<Rightarrow>
          (Panicked x,
           [EvWithCancel ctx, EvExecute (WithCancel ctx) None (Panicked x),
            EvCancel (WithCancel ctx)])
      | OsExit n \<Rightarrow>
          (OsExit n, [EvWithCancel ctx, EvExecute (WithCancel ctx) None (OsExit n)]))"
  by (simp add: Run_def Let_def split: outcome.splits)

lemma exitCode_no_exit [simp]: "exitCode err \<noteq> OsExit n"
  by (cases err rule: exitCode.cases) simp_all

lemma payload_snoc: "payload (ms @ [WithMetadata b]) = Some b"
  by (simp add: payload_def WithMetadata_def)

lemma Run_absent: "payload mods = None \<Longrightarrow> Run dec ctx p mods = Run dec ctx p []"
  by (simp add: Run_def payload_def Let_def split: option.splits outcome.splits)

lemma Run_decoded_payloads:
  "decoded_payloads (snd (Run dec ctx p mods)) =
     (case payload mods of None \<Rightarrow> [] | Some b \<Rightarrow> [b])"
  by (simp add: Run_def payload_def Let_def split: option.splits outcome.splits)

lemma Run_decode_first: "decoded_payloads (tl (snd (Run dec ctx p mods))) = []"
  by (simp add: Run_def Let_def split: option.splits outcome.splits)

lemma Run_decode_before_execute:
  "decoded_payloads (dropWhile (\<lambda>ev. \<not> is_EvExecute ev) (snd (Run dec ctx p mods))) = []"
  by (simp add: Run_def Let_def split: option.splits outcome.splits)

lemma Run_hd_decode: "payload mods = Some b \<Longrightarrow> hd (snd (Run dec ctx p mods)) = EvDecode b"
  by (simp add: Run_def payload_def Let_def split: option.splits outcome.splits)

lemma Run_created_from:
  "created_from (snd (Run dec ctx p mods)) = (if decoding_succeeds dec mods then [ctx] else [])"
  by (simp add: Run_def payload_def decoding_succeeds_def Let_def
      split: option.splits outcome.splits)

lemma Run_executed_with:
  "map fst (executed_with (snd (Run dec ctx p mods))) =
     map WithCancel (created_from (snd (Run dec ctx p mods)))"
  by (simp add: Run_def Let_def split: option.splits outcome.splits)

lemma Run_cancelled:
  "cancelled (snd (Run dec ctx p mods)) =
     (case fst (Run dec ctx p mods) of
        OsExit n \<Rightarrow> []
      | _ \<Rightarrow> map WithCancel (created_from (snd (Run dec ctx p mods))))"
  by (auto simp: Run_def Let_def split: option.splits outcome.splits)

lemma Run_last_cancel:
  assumes "decoding_succeeds dec mods" and "\<forall>n. fst (Run dec ctx p mods) \<noteq> OsExit n"
  shows "last (snd (Run dec ctx p mods)) = EvCancel (WithCancel ctx)"
  using assms
  by (auto simp: Run_def payload_def decoding_succeeds_def Let_def
      split: option.splits outcome.splits)

lemma Run_exits: "exits (snd (Run dec ctx p mods)) = []"
  by (simp add: Run_def Let_def split: option.splits outcome.splits)

lemma exits_append [simp]: "exits (tr @ tr') = exits tr @ exits tr'"
  by (induction tr) (simp_all split: event.splits)

lemma RunAndExit_Returned:
  assumes "fst (Run dec Background p mods) = Returned n"
  shows "RunAndExit dec p mods = (OsExit n, snd (Run dec Background p mods) @ [EvExit n])"
  using assms by (cases "Run dec Background p mods") (simp add: RunAndExit_def)

lemma RunAndExit_never_returns: "fst (RunAndExit dec p mods) \<noteq> Returned x"
proof (cases "Run dec Background p mods")
  case (Pair r tr)
  then show ?thesis
    by (cases r) (simp_all add: RunAndExit_def)
qed

lemma RunAndExit_exits:
  "exits (snd (RunAndExit dec p mods)) =
     (case fst (Run dec Background p mods) of Returned n \<Rightarrow> [n] | _ \<Rightarrow> [])"
proof (cases "Run dec Background p mods")
  case (Pair r tr)
  with Run_exits [of dec Background p mods] show ?thesis
    by (cases r) (simp_all add: RunAndExit_def)
qed

lemma Func_fails: "(\<forall>pl. Func f \<noteq> Returned pl) = (\<not> callable f)"
  by (cases f) (simp_all add: Func_def)

lemma Struct_fails: "(\<forall>pl. Struct T subs \<noteq> Returned pl) = (Kind T \<noteq> reflect_Struct)"
  by (simp add: Struct_def)

text \<open>
  How a run ends, from its inputs: as the decoder does if it fails, else as \<open>execute\<close>
  does on the child context and the decoded metadata, a returned error being mapped by
  \<open>exitCode\<close>.
\<close>

lemma Run_fst:
  "fst (Run dec ctx p mods) =
     (case decoded_metadata dec mods of
        Returned md \<Rightarrow>
          (case execute p (WithCancel ctx) md of
             Returned err \<Rightarrow> exitCode err
           | Panicked x \<Rightarrow> Panicked x
           | OsExit n \<Rightarrow> OsExit n)
      | Panicked x \<Rightarrow> Panicked x
      | OsExit n \<Rightarrow> OsExit n)"
  by (simp add: Run_def decoded_metadata_def payload_def Let_def
      split: option.splits outcome.splits)

lemma Run_maps_error:
  assumes "decoded_metadata dec mods = Returned md"
    and "execute p (WithCancel ctx) md = Returned err"
  shows "fst (Run dec ctx p mods) = exitCode err"
  using assms by (simp add: Run_fst)

lemma decoding_succeeds_iff:
  "decoding_succeeds dec mods = (\<exists>md. decoded_metadata dec mods = Returned md)"
  by (simp add: decoding_succeeds_def decoded_metadata_def split: option.splits outcome.splits)

lemma RunAndExit_Panicked:
  assumes "fst (Run dec Background p mods) = Panicked x"
  shows "RunAndExit dec p mods = (Panicked x, snd (Run dec Background p mods))"
  using assms by (cases "Run dec Background p mods") (simp add: RunAndExit_def)

lemma example_decoded [simp]:
  "decoded_metadata example_decoder [] = Returned None"
  "decoded_metadata example_decoder [WithMetadata (Slice [1, 7])] = Returned (Some [7])"
  "decoded_metadata example_decoder [WithMetadata (Slice [0])]
     = Panicked (AssertionFailure ''malformed metadata'')"
  by (simp_all add: decoded_metadata_def payload_def WithMetadata_def)

text \<open>
  C1. When the metadata decoding of a run does not fail and the plan's \<open>execute\<close>, called
  on the child context and the decoded metadata, returns nil, \<open>Run\<close> returns 0; when it
  returns a plain domain error (an error whose dynamic type is neither \<open>*exitError\<close> nor
  \<open>*exec.ExitError\<close>), \<open>Run\<close> returns 1.
\<close>

theorem Run_nil_and_plain_error:
  assumes "decoded_metadata dec mods = Returned md"
    and "execute p (WithCancel ctx) md = Returned err"
  shows "(err = None \<longrightarrow> fst (Run dec ctx p mods) = Returned 0) \<and>
         (plain_domain_error err \<longrightarrow> fst (Run dec ctx p mods) = Returned 1)"
proof -
  have run: "fst (Run dec ctx p mods) = exitCode err"
    using Run_maps_error [OF assms] .
  have "plain_domain_error err \<Longrightarrow> exitCode err = Returned 1"
    by (cases err rule: plain_domain_error.cases) simp_all
  with run show ?thesis by simp
qed

theorem Run_nil_and_plain_error_witness:
  "decoded_metadata example_decoder [] = Returned None
   \<and> execute (always (Returned None) :: 8 word list plan) (WithCancel Background) None
       = Returned None
   \<and> fst (Run example_decoder Background (always (Returned None)) []) = Returned 0
   \<and> decoded_metadata example_decoder [WithMetadata (Slice [1, 7])] = Returned (Some [7])
   \<and> execute (always (Returned None) :: 8 word list plan) (WithCancel Background) (Some [7])
       = Returned None
   \<and> fst (Run example_decoder Background (always (Returned None)) [WithMetadata (Slice [1, 7])])
       = Returned 0
   \<and> execute (always (Returned (Some (OtherError ''boom'' []))) :: 8 word list plan)
         (WithCancel Background) (Some [7])
       = Returned (Some (OtherError ''boom'' []))
   \<and> plain_domain_error (Some (OtherError ''boom'' []))
   \<and> fst (Run example_decoder Background
             (always (Returned (Some (OtherError ''boom'' [])))) [WithMetadata (Slice [1, 7])])
       = Returned 1"
proof -
  let ?nil = "always (Returned None) :: 8 word list plan"
  let ?boom = "always (Returned (Some (OtherError ''boom'' []))) :: 8 word list plan"
  have d0: "decoded_metadata example_decoder [] = Returned None"
    by simp
  have d1: "decoded_metadata example_decoder [WithMetadata (Slice [1, 7])] = Returned (Some [7])"
    by simp
  have e0: "execute ?nil (WithCancel Background) None = Returned None"
    by (simp add: always_def)
  have e1: "execute ?nil (WithCancel Background) (Some [7]) = Returned None"
    by (simp add: always_def)
  have e2: "execute ?boom (WithCancel Background) (Some [7])
      = Returned (Some (OtherError ''boom'' []))"
    by (simp add: always_def)
  show ?thesis
    using d0 d1 e0 e1 e2
      Run_nil_and_plain_error [OF d0 e0]
      Run_nil_and_plain_error [OF d1 e1]
      Run_nil_and_plain_error [OF d1 e2]
    by simp
qed

text \<open>
  C2. For every \<open>N\<close>: when the metadata decoding of a run does not fail and the plan's
  \<open>execute\<close>, called on the child context and the decoded metadata, returns a
  \<open>*exitError\<close> that carries the code \<open>N\<close>, \<open>Run\<close> returns \<open>N\<close>.
\<close>

theorem Run_explicit_exit_code:
  assumes "decoded_metadata dec mods = Returned md"
    and "execute p (WithCancel ctx) md = Returned (Some (ExitErrorPtr (Some (ExitError N es))))"
  shows "fst (Run dec ctx p mods) = Returned N"
  using Run_maps_error [OF assms] by simp

theorem Run_explicit_exit_code_witness:
  "decoded_metadata example_decoder [WithMetadata (Slice [1, 7])] = Returned (Some [7])
   \<and> execute (always (Returned (Some (ExitErrorPtr (Some (ExitError 42 [])))))
                :: 8 word list plan) (WithCancel (Caller 4 None)) (Some [7])
       = Returned (Some (ExitErrorPtr (Some (ExitError 42 []))))
   \<and> fst (Run example_decoder (Caller 4 None)
             (always (Returned (Some (ExitErrorPtr (Some (ExitError 42 []))))))
             [WithMetadata (Slice [1, 7])])
       = Returned 42
   \<and> decoded_metadata example_decoder [] = Returned None
   \<and> execute (always (Returned (Some (ExitErrorPtr (Some (ExitError 0 [])))))
                :: 8 word list plan) (WithCancel Background) None
       = Returned (Some (ExitErrorPtr (Some (ExitError 0 []))))
   \<and> fst (Run example_decoder Background
             (always (Returned (Some (ExitErrorPtr (Some (ExitError 0 [])))))) [])
       = Returned 0"
proof -
  let ?p = "always (Returned (Some (ExitErrorPtr (Some (ExitError 42 [])))))
              :: 8 word list plan"
  let ?q = "always (Returned (Some (ExitErrorPtr (Some (ExitError 0 [])))))
              :: 8 word list plan"
  have d0: "decoded_metadata example_decoder [] = Returned None"
    by simp
  have d1: "decoded_metadata example_decoder [WithMetadata (Slice [1, 7])] = Returned (Some [7])"
    by simp
  have e1: "execute ?p (WithCancel (Caller 4 None)) (Some [7])
      = Returned (Some (ExitErrorPtr (Some (ExitError 42 []))))"
    by (simp add: always_def)
  have e0: "execute ?q (WithCancel Background) None
      = Returned (Some (ExitErrorPtr (Some (ExitError 0 []))))"
    by (simp add: always_def)
  show ?thesis
    using d0 d1 e0 e1 Run_explicit_exit_code [OF d1 e1] Run_explicit_exit_code [OF d0 e0]
    by simp
qed

text \<open>
  C3. For every \<open>M\<close>: when the metadata decoding of a run does not fail and the plan's
  \<open>execute\<close>, called on the child context and the decoded metadata, returns a
  subprocess-termination error, that is a \<open>*exec.ExitError\<close> wrapping the state of an
  external process that exited with code \<open>M\<close>, \<open>Run\<close> returns \<open>M\<close>. (An error of
  another type that in turn wraps such a value is the subject of C9.)
\<close>

theorem Run_subprocess_exit_code:
  assumes "decoded_metadata dec mods = Returned md"
    and "execute p (WithCancel ctx) md =
           Returned (Some (ExecExitErrorPtr
             (Some \<lparr>ProcessState = Some (Exited M), Stderr = out\<rparr>)))"
  shows "fst (Run dec ctx p mods) = Returned M"
  using Run_maps_error [OF assms] by simp

theorem Run_subprocess_exit_code_witness:
  "decoded_metadata example_decoder [WithMetadata (Slice [1, 7])] = Returned (Some [7])
   \<and> execute (always (Returned (Some (ExecExitErrorPtr
                  (Some \<lparr>ProcessState = Some (Exited 3), Stderr = NilSlice\<rparr>))))
                :: 8 word list plan) (WithCancel Background) (Some [7])
       = Returned (Some (ExecExitErrorPtr
           (Some \<lparr>ProcessState = Some (Exited 3), Stderr = NilSlice\<rparr>)))
   \<and> fst (Run example_decoder Background
             (always (Returned (Some (ExecExitErrorPtr
                (Some \<lparr>ProcessState = Some (Exited 3), Stderr = NilSlice\<rparr>)))))
             [WithMetadata (Slice [1, 7])])
       = Returned 3
   \<and> decoded_metadata example_decoder [] = Returned None
   \<and> execute (always (Returned (Some (ExecExitErrorPtr
                  (Some \<lparr>ProcessState = Some (Exited 127), Stderr = Slice [104, 105]\<rparr>))))
                :: 8 word list plan) (WithCancel Background) None
       = Returned (Some (ExecExitErrorPtr
           (Some \<lparr>ProcessState = Some (Exited 127), Stderr = Slice [104, 105]\<rparr>)))
   \<and> fst (Run example_decoder Background
             (always (Returned (Some (ExecExitErrorPtr
                (Some \<lparr>ProcessState = Some (Exited 127), Stderr = Slice [104, 105]\<rparr>))))) [])
       = Returned 127"
proof -
  let ?p = "always (Returned (Some (ExecExitErrorPtr
              (Some \<lparr>ProcessState = Some (Exited 3), Stderr = NilSlice\<rparr>))))
              :: 8 word list plan"
  let ?q = "always (Returned (Some (ExecExitErrorPtr
              (Some \<lparr>ProcessState = Some (Exited 127), Stderr = Slice [104, 105]\<rparr>))))
              :: 8 word list plan"
  have d0: "decoded_metadata example_decoder [] = Returned None"
    by simp
  have d1: "decoded_metadata example_decoder [WithMetadata (Slice [1, 7])] = Returned (Some [7])"
    by simp
  have e1: "execute ?p (WithCancel Background) (Some [7])
      = Returned (Some (ExecExitErrorPtr
          (Some \<lparr>ProcessState = Some (Exited 3), Stderr = NilSlice\<rparr>)))"
    by (simp add: always_def)
  have e0: "execute ?q (WithCancel Background) None
      = Returned (Some (ExecExitErrorPtr
          (Some \<lparr>ProcessState = Some (Exited 127), Stderr = Slice [104, 105]\<rparr>)))"
    by (simp add: always_def)
  show ?thesis
    using d0 d1 e0 e1 Run_subprocess_exit_code [OF d1 e1] Run_subprocess_exit_code [OF d0 e0]
    by simp
qed

text \<open>
  C8. The exit code depends on the returned error value only: two runs in which
  \<open>execute\<close> returns the same error end the same way, whatever their contexts (and
  hence whether and when those contexts are cancelled), plans, metadata and modifiers.
\<close>

theorem Run_exit_code_depends_on_error_only:
  assumes "EvExecute c1 md1 (Returned err) \<in> set (snd (Run dec1 ctx1 p1 mods1))"
    and "EvExecute c2 md2 (Returned err) \<in> set (snd (Run dec2 ctx2 p2 mods2))"
  shows "fst (Run dec1 ctx1 p1 mods1) = fst (Run dec2 ctx2 p2 mods2) \<and>
         fst (Run dec1 ctx1 p1 mods1) = exitCode err"
  using Run_executed [OF assms(1)] Run_executed [OF assms(2)] by simp

theorem Run_exit_code_depends_on_error_only_witness:
  "EvExecute (WithCancel (Caller 1 (Some 0))) None
       (Returned (Some (OtherError ''context canceled'' [])))
     \<in> set (snd (Run example_decoder (Caller 1 (Some 0)) watching []))
   \<and> EvExecute (WithCancel (Caller 2 (Some 5))) (Some [7])
       (Returned (Some (OtherError ''context canceled'' [])))
     \<in> set (snd (Run example_decoder (Caller 2 (Some 5)) watching [WithMetadata (Slice [1, 7])]))
   \<and> fst (Run example_decoder (Caller 1 (Some 0)) watching [])
       = fst (Run example_decoder (Caller 2 (Some 5)) watching [WithMetadata (Slice [1, 7])])
   \<and> fst (Run example_decoder (Caller 1 (Some 0)) watching []) = Returned 1"
proof -
  have h1: "EvExecute (WithCancel (Caller 1 (Some 0))) None
       (Returned (Some (OtherError ''context canceled'' [])))
     \<in> set (snd (Run example_decoder (Caller 1 (Some 0)) watching []))"
    by (simp add: Run_no_mods watching_def)
  have h2: "EvExecute (WithCancel (Caller 2 (Some 5))) (Some [7])
       (Returned (Some (OtherError ''context canceled'' [])))
     \<in> set (snd (Run example_decoder (Caller 2 (Some 5)) watching [WithMetadata (Slice [1, 7])]))"
    by (simp add: Run_def Let_def WithMetadata_def watching_def)
  show ?thesis
    using h1 h2 Run_exit_code_depends_on_error_only [OF h1 h2] by auto
qed

text \<open>
  C9. The type switch looks at the error's own dynamic type and never unwraps: when the
  metadata decoding of a run does not fail and the plan's \<open>execute\<close>, called on the child
  context and the decoded metadata, returns an error of another type that wraps a
  \<open>*exitError\<close> or a \<open>*exec.ExitError\<close>, at any depth, \<open>Run\<close> returns 1. A
  \<open>*exitError\<close> gives its own code also when it carries a \<open>*exec.ExitError\<close>: the
  explicit exit code wins over the subprocess's.
\<close>

theorem Run_does_not_unwrap:
  assumes "decoded_metadata dec mods = Returned md"
    and "execute p (WithCancel ctx) md = Returned (Some e)"
  shows "(plain_domain_error (Some e) \<and> wraps e d \<and> \<not> plain_domain_error (Some d)
            \<longrightarrow> fst (Run dec ctx p mods) = Returned 1) \<and>
         (e = ExitErrorPtr (Some x) \<and> wraps e (ExecExitErrorPtr y)
            \<longrightarrow> fst (Run dec ctx p mods) = Returned (code x))"
proof -
  have run: "fst (Run dec ctx p mods) = exitCode (Some e)"
    using Run_maps_error [OF assms] .
  have "plain_domain_error (Some e) \<Longrightarrow> exitCode (Some e) = Returned 1"
    by (cases e) simp_all
  with run show ?thesis by simp
qed

theorem Run_does_not_unwrap_witness:
  "decoded_metadata example_decoder [WithMetadata (Slice [1, 7])] = Returned (Some [7])
   \<and> execute (always (Returned (Some (OtherError ''run: exit status 3''
          [OtherError ''exit status 3''
             [ExecExitErrorPtr
                (Some \<lparr>ProcessState = Some (Exited 3), Stderr = NilSlice\<rparr>)]])))
        :: 8 word list plan) (WithCancel Background) (Some [7])
       = Returned (Some (OtherError ''run: exit status 3''
          [OtherError ''exit status 3''
             [ExecExitErrorPtr
                (Some \<lparr>ProcessState = Some (Exited 3), Stderr = NilSlice\<rparr>)]]))
   \<and> plain_domain_error (Some (OtherError ''run: exit status 3''
          [OtherError ''exit status 3''
             [ExecExitErrorPtr
                (Some \<lparr>ProcessState = Some (Exited 3), Stderr = NilSlice\<rparr>)]]))
   \<and> wraps (OtherError ''run: exit status 3''
          [OtherError ''exit status 3''
             [ExecExitErrorPtr (Some \<lparr>ProcessState = Some (Exited 3), Stderr = NilSlice\<rparr>)]])
        (ExecExitErrorPtr (Some \<lparr>ProcessState = Some (Exited 3), Stderr = NilSlice\<rparr>))
   \<and> \<not> plain_domain_error
         (Some (ExecExitErrorPtr (Some \<lparr>ProcessState = Some (Exited 3), Stderr = NilSlice\<rparr>)))
   \<and> fst (Run example_decoder Background
          (always (Returned (Some (OtherError ''run: exit status 3''
             [OtherError ''exit status 3''
                [ExecExitErrorPtr
                   (Some \<lparr>ProcessState = Some (Exited 3), Stderr = NilSlice\<rparr>)]]))))
          [WithMetadata (Slice [1, 7])])
       = Returned 1
   \<and> execute (always (Returned (Some (ExitErrorPtr (Some (ExitError 5
          [ExecExitErrorPtr
             (Some \<lparr>ProcessState = Some (Exited 3), Stderr = NilSlice\<rparr>)])))))
        :: 8 word list plan) (WithCancel Background) (Some [7])
       = Returned (Some (ExitErrorPtr (Some (ExitError 5
          [ExecExitErrorPtr (Some \<lparr>ProcessState = Some (Exited 3), Stderr = NilSlice\<rparr>)]))))
   \<and> wraps (ExitErrorPtr (Some (ExitError 5
          [ExecExitErrorPtr (Some \<lparr>ProcessState = Some (Exited 3), Stderr = NilSlice\<rparr>)])))
        (ExecExitErrorPtr (Some \<lparr>ProcessState = Some (Exited 3), Stderr = NilSlice\<rparr>))
   \<and> fst (Run example_decoder Background
          (always (Returned (Some (ExitErrorPtr (Some (ExitError 5
             [ExecExitErrorPtr
                (Some \<lparr>ProcessState = Some (Exited 3), Stderr = NilSlice\<rparr>)]))))))
          [WithMetadata (Slice [1, 7])])
       = Returned 5"
proof -
  let ?st = "Some \<lparr>ProcessState = Some (Exited 3), Stderr = NilSlice\<rparr>"
  let ?sub = "ExecExitErrorPtr ?st"
  let ?inner = "OtherError ''exit status 3'' [?sub]"
  let ?outer = "OtherError ''run: exit status 3'' [?inner]"
  let ?exit = "ExitError 5 [?sub]"
  let ?p = "always (Returned (Some ?outer)) :: 8 word list plan"
  let ?q = "always (Returned (Some (ExitErrorPtr (Some ?exit)))) :: 8 word list plan"
  have d: "decoded_metadata example_decoder [WithMetadata (Slice [1, 7])] = Returned (Some [7])"
    by simp
  have e1: "execute ?p (WithCancel Background) (Some [7]) = Returned (Some ?outer)"
    by (simp add: always_def)
  have e2: "execute ?q (WithCancel Background) (Some [7])
      = Returned (Some (ExitErrorPtr (Some ?exit)))"
    by (simp add: always_def)
  have "wraps ?inner ?sub"
    by (rule wraps.direct) simp
  then have w1: "wraps ?outer ?sub"
    by (rule wraps.deeper [rotated]) simp
  have w2: "wraps (ExitErrorPtr (Some ?exit)) ?sub"
    by (rule wraps.direct) simp
  show ?thesis
    using d e1 e2 w1 w2
      Run_does_not_unwrap [OF d e1, of ?sub ?exit ?st]
      Run_does_not_unwrap [OF d e2, of ?sub ?exit ?st]
    by simp
qed

section \<open>Contexts, metadata and process exit\<close>

text \<open>
  C4, as the code has it. Every call of \<open>Run\<close> creates at most one cancellable context,
  always derived from the caller's parent context: exactly one when there is no metadata
  payload or its decoding succeeds, none when decoding fails. \<open>execute\<close> receives the
  context created. Unless the process exits inside the call, every context created is
  cancelled, and the cancellation is the last thing the run does, whether \<open>execute\<close>
  returns or panics.
\<close>

theorem Run_context_lifecycle:
  "length (created_from (snd (Run dec ctx p mods))) \<le> 1 \<and>
   (decoding_succeeds dec mods \<longrightarrow> created_from (snd (Run dec ctx p mods)) = [ctx]) \<and>
   (\<not> decoding_succeeds dec mods \<longrightarrow> created_from (snd (Run dec ctx p mods)) = []) \<and>
   map fst (executed_with (snd (Run dec ctx p mods))) =
     map WithCancel (created_from (snd (Run dec ctx p mods))) \<and>
   ((\<forall>n. fst (Run dec ctx p mods) \<noteq> OsExit n) \<longrightarrow>
      cancelled (snd (Run dec ctx p mods)) =
        map WithCancel (created_from (snd (Run dec ctx p mods)))) \<and>
   (decoding_succeeds dec mods \<and> (\<forall>n. fst (Run dec ctx p mods) \<noteq> OsExit n) \<longrightarrow>
      last (snd (Run dec ctx p mods)) = EvCancel (WithCancel ctx))"
proof -
  have "(\<forall>n. fst (Run dec ctx p mods) \<noteq> OsExit n) \<Longrightarrow>
      cancelled (snd (Run dec ctx p mods)) =
        map WithCancel (created_from (snd (Run dec ctx p mods)))"
    by (simp add: Run_cancelled [of dec ctx p mods] split: outcome.splits)
  then show ?thesis
    using Run_executed_with [of dec ctx p mods] Run_last_cancel [of dec mods ctx p]
    by (simp add: Run_created_from)
qed

theorem Run_context_lifecycle_witness:
  "decoding_succeeds example_decoder [WithMetadata (Slice [1, 7])]
   \<and> (\<forall>n. fst (Run example_decoder (Caller 4 None)
                 (always (Panicked (UserPanic ''boom''))) [WithMetadata (Slice [1, 7])])
            \<noteq> OsExit n)
   \<and> created_from (snd (Run example_decoder (Caller 4 None)
          (always (Panicked (UserPanic ''boom''))) [WithMetadata (Slice [1, 7])]))
       = [Caller 4 None]
   \<and> cancelled (snd (Run example_decoder (Caller 4 None)
          (always (Panicked (UserPanic ''boom''))) [WithMetadata (Slice [1, 7])]))
       = [WithCancel (Caller 4 None)]
   \<and> last (snd (Run example_decoder (Caller 4 None)
          (always (Panicked (UserPanic ''boom''))) [WithMetadata (Slice [1, 7])]))
       = EvCancel (WithCancel (Caller 4 None))
   \<and> \<not> decoding_succeeds example_decoder [WithMetadata (Slice [0])]
   \<and> created_from (snd (Run example_decoder (Caller 4 None)
          (always (Returned None)) [WithMetadata (Slice [0])])) = []"
proof -
  have ok: "decoding_succeeds example_decoder [WithMetadata (Slice [1, 7])]"
    by (simp add: decoding_succeeds_def payload_def WithMetadata_def)
  have bad: "\<not> decoding_succeeds example_decoder [WithMetadata (Slice [0])]"
    by (simp add: decoding_succeeds_def payload_def WithMetadata_def)
  have panics: "fst (Run example_decoder (Caller 4 None)
      (always (Panicked (UserPanic ''boom''))) [WithMetadata (Slice [1, 7])])
      = Panicked (UserPanic ''boom'')"
    by (simp add: Run_def Let_def WithMetadata_def always_def)
  show ?thesis
    using ok bad panics
      Run_context_lifecycle [of example_decoder "Caller 4 None"
        "always (Panicked (UserPanic ''boom''))" "[WithMetadata (Slice [1, 7])]"]
      Run_context_lifecycle [of example_decoder "Caller 4 None"
        "always (Returned None)" "[WithMetadata (Slice [0])]"]
    by simp
qed

text \<open>
  The claim as stated fails: a call of \<open>Run\<close> with a malformed payload panics while
  decoding, before any context is created.
\<close>

theorem Run_malformed_metadata_creates_no_context:
  "snd (Run example_decoder Background (always (Returned None)) [WithMetadata (Slice [0])])
     = [EvDecode (Slice [0])]
   \<and> created_from
       (snd (Run example_decoder Background (always (Returned None)) [WithMetadata (Slice [0])]))
     = []
   \<and> fst (Run example_decoder Background (always (Returned None)) [WithMetadata (Slice [0])])
     = Panicked (AssertionFailure ''malformed metadata'')"
  by (simp add: Run_def Let_def WithMetadata_def always_def)

text \<open>
  C6, as the code has it. \<open>RunAndExit\<close> never returns to its caller; it is the only one to
  call \<open>os.Exit\<close>, which it does exactly when \<open>Run\<close> returns, with the code returned;
  when \<open>Run\<close> panics, so does \<open>RunAndExit\<close>, without reaching \<open>os.Exit\<close>.
  \<open>Run\<close> never calls \<open>os.Exit\<close>: the process exits inside \<open>Run\<close> only where the
  decoder or \<open>execute\<close> exits it. When decoding does not fail and \<open>execute\<close> returns
  an error, \<open>Run\<close> ends as \<open>exitCode\<close> does on that error, returning its code to the
  caller. When the decoder panics, or \<open>execute\<close> does, \<open>Run\<close> returns no code: the
  panic leaves it.
\<close>

theorem RunAndExit_is_the_exit_point:
  "(\<forall>u. fst (RunAndExit dec p mods) \<noteq> Returned u) \<and>
   (fst (Run dec Background p mods) = Returned n \<longrightarrow>
      RunAndExit dec p mods = (OsExit n, snd (Run dec Background p mods) @ [EvExit n])) \<and>
   (fst (Run dec Background p mods) = Panicked x \<longrightarrow>
      RunAndExit dec p mods = (Panicked x, snd (Run dec Background p mods))) \<and>
   exits (snd (RunAndExit dec p mods)) =
     (case fst (Run dec Background p mods) of Returned n \<Rightarrow> [n] | _ \<Rightarrow> []) \<and>
   exits (snd (Run dec ctx p mods)) = [] \<and>
   (fst (Run dec ctx p mods) = OsExit k \<longrightarrow>
      decoded_metadata dec mods = OsExit k \<or>
      (\<exists>md. decoded_metadata dec mods = Returned md \<and>
            execute p (WithCancel ctx) md = OsExit k)) \<and>
   (decoded_metadata dec mods = Returned md \<and> execute p (WithCancel ctx) md = Returned err
      \<longrightarrow> fst (Run dec ctx p mods) = exitCode err) \<and>
   (decoded_metadata dec mods = Panicked y \<longrightarrow> fst (Run dec ctx p mods) = Panicked y) \<and>
   (decoded_metadata dec mods = Returned md \<and> execute p (WithCancel ctx) md = Panicked y
      \<longrightarrow> fst (Run dec ctx p mods) = Panicked y)"
proof -
  have exit: "fst (Run dec ctx p mods) = OsExit k \<Longrightarrow>
      decoded_metadata dec mods = OsExit k \<or>
      (\<exists>md. decoded_metadata dec mods = Returned md \<and>
            execute p (WithCancel ctx) md = OsExit k)"
    by (auto simp: Run_fst split: outcome.splits)
  have ret: "decoded_metadata dec mods = Returned md \<Longrightarrow>
      execute p (WithCancel ctx) md = Returned err \<Longrightarrow> fst (Run dec ctx p mods) = exitCode err"
    by (rule Run_maps_error)
  have pd: "decoded_metadata dec mods = Panicked y \<Longrightarrow> fst (Run dec ctx p mods) = Panicked y"
    by (simp add: Run_fst)
  have pe: "decoded_metadata dec mods = Returned md \<Longrightarrow>
      execute p (WithCancel ctx) md = Panicked y \<Longrightarrow> fst (Run dec ctx p mods) = Panicked y"
    by (simp add: Run_fst)
  show ?thesis
    using RunAndExit_never_returns [of dec p mods] RunAndExit_Returned [of dec p mods n]
      RunAndExit_Panicked [of dec p mods x] RunAndExit_exits [of dec p mods]
      Run_exits [of dec ctx p mods] exit ret pd pe
    by blast
qed

theorem RunAndExit_is_the_exit_point_witness:
  "decoded_metadata example_decoder [WithMetadata (Slice [1, 7])] = Returned (Some [7])
   \<and> execute (always (Returned (Some (ExitErrorPtr (Some (ExitError 42 [])))))
                :: 8 word list plan) (WithCancel Background) (Some [7])
       = Returned (Some (ExitErrorPtr (Some (ExitError 42 []))))
   \<and> fst (Run example_decoder Background
             (always (Returned (Some (ExitErrorPtr (Some (ExitError 42 []))))))
             [WithMetadata (Slice [1, 7])])
       = Returned 42
   \<and> RunAndExit example_decoder
        (always (Returned (Some (ExitErrorPtr (Some (ExitError 42 []))))))
        [WithMetadata (Slice [1, 7])]
       = (OsExit 42,
          [EvDecode (Slice [1, 7]),
           EvWithCancel Background,
           EvExecute (WithCancel Background) (Some [7])
             (Returned (Some (ExitErrorPtr (Some (ExitError 42 []))))),
           EvCancel (WithCancel Background),
           EvExit 42])
   \<and> decoded_metadata example_decoder [WithMetadata (Slice [0])]
       = Panicked (AssertionFailure ''malformed metadata'')
   \<and> fst (Run example_decoder Background
             (always (Returned (Some (ExitErrorPtr (Some (ExitError 42 []))))))
             [WithMetadata (Slice [0])])
       = Panicked (AssertionFailure ''malformed metadata'')
   \<and> RunAndExit example_decoder
        (always (Returned (Some (ExitErrorPtr (Some (ExitError 42 []))))))
        [WithMetadata (Slice [0])]
       = (Panicked (AssertionFailure ''malformed metadata''), [EvDecode (Slice [0])])
   \<and> execute (always (Panicked (UserPanic ''boom'')) :: 8 word list plan)
         (WithCancel Background) (Some [7])
       = Panicked (UserPanic ''boom'')
   \<and> fst (Run example_decoder Background (always (Panicked (UserPanic ''boom'')))
             [WithMetadata (Slice [1, 7])])
       = Panicked (UserPanic ''boom'')
   \<and> fst (Run example_decoder Background (always (OsExit 9)) [WithMetadata (Slice [1, 7])])
       = OsExit 9
   \<and> execute (always (OsExit 9) :: 8 word list plan) (WithCancel Background) (Some [7])
       = OsExit 9"
proof -
  let ?p = "always (Returned (Some (ExitErrorPtr (Some (ExitError 42 [])))))
              :: 8 word list plan"
  let ?b = "always (Panicked (UserPanic ''boom'')) :: 8 word list plan"
  let ?q = "always (OsExit 9) :: 8 word list plan"
  let ?ok = "[WithMetadata (Slice [1, 7])]"
  let ?bad = "[WithMetadata (Slice [0])]"
  have d1: "decoded_metadata example_decoder ?ok = Returned (Some [7])"
    by simp
  have d0: "decoded_metadata example_decoder ?bad
      = Panicked (AssertionFailure ''malformed metadata'')"
    by simp
  have ep: "execute ?p (WithCancel Background) (Some [7])
      = Returned (Some (ExitErrorPtr (Some (ExitError 42 []))))"
    by (simp add: always_def)
  have eb: "execute ?b (WithCancel Background) (Some [7]) = Panicked (UserPanic ''boom'')"
    by (simp add: always_def)
  have eq: "execute ?q (WithCancel Background) (Some [7]) = OsExit 9"
    by (simp add: always_def)
  have tr1: "snd (Run example_decoder Background ?p ?ok) =
      [EvDecode (Slice [1, 7]),
       EvWithCancel Background,
       EvExecute (WithCancel Background) (Some [7])
         (Returned (Some (ExitErrorPtr (Some (ExitError 42 []))))),
       EvCancel (WithCancel Background)]"
    by (simp add: Run_def Let_def WithMetadata_def always_def)
  have tr0: "snd (Run example_decoder Background ?p ?bad) = [EvDecode (Slice [0])]"
    by (simp add: Run_def Let_def WithMetadata_def always_def)
  have rq: "fst (Run example_decoder Background ?q ?ok) = OsExit 9"
    by (simp add: Run_def Let_def WithMetadata_def always_def)
  note a = RunAndExit_is_the_exit_point
    [where dec = example_decoder and p = ?p and mods = ?ok and ctx = Background
       and md = "Some [7]" and err = "Some (ExitErrorPtr (Some (ExitError 42 [])))"
       and n = 42]
  note b = RunAndExit_is_the_exit_point
    [where dec = example_decoder and p = ?p and mods = ?bad and ctx = Background
       and y = "AssertionFailure ''malformed metadata''"
       and x = "AssertionFailure ''malformed metadata''"]
  note c = RunAndExit_is_the_exit_point
    [where dec = example_decoder and p = ?b and mods = ?ok and ctx = Background
       and md = "Some [7]" and y = "UserPanic ''boom''"]
  from a d1 ep have r1: "fst (Run example_decoder Background ?p ?ok) = Returned 42"
    by simp
  from b d0 have r0: "fst (Run example_decoder Background ?p ?bad)
      = Panicked (AssertionFailure ''malformed metadata'')"
    by simp
  from c d1 eb have r2: "fst (Run example_decoder Background ?b ?ok)
      = Panicked (UserPanic ''boom'')"
    by simp
  from a r1 tr1 have x1: "RunAndExit example_decoder ?p ?ok =
      (OsExit 42,
       [EvDecode (Slice [1, 7]),
        EvWithCancel Background,
        EvExecute (WithCancel Background) (Some [7])
          (Returned (Some (ExitErrorPtr (Some (ExitError 42 []))))),
        EvCancel (WithCancel Background),
        EvExit 42])"
    by simp
  from b r0 tr0 have x0: "RunAndExit example_decoder ?p ?bad =
      (Panicked (AssertionFailure ''malformed metadata''), [EvDecode (Slice [0])])"
    by simp
  show ?thesis
    using d1 d0 ep eb eq rq r1 r0 r2 x1 x0 by simp
qed

text \<open>
  The claim as stated fails: \<open>Run\<close> does not always return an exit code. With a malformed
  payload the decoder panics and the panic leaves \<open>Run\<close> (and \<open>RunAndExit\<close>, which then
  does not reach \<open>os.Exit\<close>); a panic of \<open>execute\<close> leaves it likewise.
\<close>

theorem Run_malformed_metadata_returns_no_code:
  "fst (Run example_decoder Background (always (Returned None)) [WithMetadata NilSlice])
     = Panicked (AssertionFailure ''malformed metadata'')
   \<and> RunAndExit example_decoder (always (Returned None)) [WithMetadata NilSlice]
     = (Panicked (AssertionFailure ''malformed metadata''), [EvDecode NilSlice])
   \<and> fst (Run example_decoder Background (always (Panicked (UserPanic ''boom''))) [])
     = Panicked (UserPanic ''boom'')"
  by (simp add: Run_def RunAndExit_def Let_def WithMetadata_def always_def)

text \<open>
  C7. \<open>Run\<close> decodes at most once, as the first thing it does: nothing is decoded after
  the first event of a run, nor from the call of \<open>execute\<close> on. When no payload is set,
  nothing is decoded, \<open>execute\<close> is called with nil metadata, and the run ends as that
  call does.
\<close>

theorem Run_decodes_at_most_once:
  "length (decoded_payloads (snd (Run dec ctx p mods))) \<le> 1 \<and>
   decoded_payloads (tl (snd (Run dec ctx p mods))) = [] \<and>
   decoded_payloads (dropWhile (\<lambda>ev. \<not> is_EvExecute ev) (snd (Run dec ctx p mods))) = [] \<and>
   (payload mods = None \<longrightarrow>
      decoded_payloads (snd (Run dec ctx p mods)) = [] \<and>
      executed_with (snd (Run dec ctx p mods)) = [(WithCancel ctx, None)] \<and>
      fst (Run dec ctx p mods) =
        (case execute p (WithCancel ctx) None of
           Returned err \<Rightarrow> exitCode err | Panicked x \<Rightarrow> Panicked x | OsExit n \<Rightarrow> OsExit n))"
proof -
  have "payload mods = None \<Longrightarrow>
      executed_with (snd (Run dec ctx p mods)) = [(WithCancel ctx, None)] \<and>
      fst (Run dec ctx p mods) =
        (case execute p (WithCancel ctx) None of
           Returned err \<Rightarrow> exitCode err | Panicked x \<Rightarrow> Panicked x | OsExit n \<Rightarrow> OsExit n)"
    by (simp add: Run_absent Run_no_mods split: outcome.splits)
  then show ?thesis
    by (simp add: Run_decoded_payloads Run_decode_first Run_decode_before_execute
        split: option.splits)
qed

theorem Run_decodes_at_most_once_witness:
  "payload [] = None
   \<and> decoded_payloads (snd (Run example_decoder Background (always (Returned None)) [])) = []
   \<and> executed_with (snd (Run example_decoder Background (always (Returned None)) []))
       = [(WithCancel Background, None)]
   \<and> fst (Run example_decoder Background (always (Returned None)) []) = Returned 0"
proof -
  have h: "payload [] = None"
    by (simp add: payload_def)
  show ?thesis
    using h Run_decodes_at_most_once
      [of example_decoder Background "always (Returned None)" "[]"]
    by (simp add: always_def)
qed

text \<open>
  C10. \<open>WithMetadata\<close> of the nil slice is not the absence of a payload: the option is
  set, and the run starts by decoding the nil payload, before \<open>execute\<close>. With no
  modifier nothing is decoded and \<open>execute\<close> receives nil metadata. The modifiers are
  applied in order, so after any modifiers the payload of a last \<open>WithMetadata\<close> is the
  one decoded.
\<close>

theorem WithMetadata_nil_is_not_absence:
  "payload [WithMetadata NilSlice] = Some NilSlice \<and>
   payload [] = None \<and>
   hd (snd (Run dec ctx p [WithMetadata NilSlice])) = EvDecode NilSlice \<and>
   decoded_payloads (snd (Run dec ctx p [WithMetadata NilSlice])) = [NilSlice] \<and>
   decoded_payloads
     (dropWhile (\<lambda>ev. \<not> is_EvExecute ev) (snd (Run dec ctx p [WithMetadata NilSlice]))) = [] \<and>
   decoded_payloads (snd (Run dec ctx p [])) = [] \<and>
   executed_with (snd (Run dec ctx p [])) = [(WithCancel ctx, None)] \<and>
   payload (ms @ [WithMetadata b]) = Some b \<and>
   decoded_payloads (snd (Run dec ctx p (ms @ [WithMetadata b]))) = [b]"
proof -
  have nil: "payload [WithMetadata NilSlice] = Some NilSlice"
    using payload_snoc [of "[]" NilSlice] by simp
  have none: "payload [] = None"
    by (simp add: payload_def)
  have "executed_with (snd (Run dec ctx p [])) = [(WithCancel ctx, None)]"
    by (simp add: Run_no_mods split: outcome.splits)
  with nil none show ?thesis
    by (simp add: Run_decoded_payloads Run_decode_before_execute Run_hd_decode payload_snoc)
qed

theorem WithMetadata_nil_is_not_absence_witness:
  "snd (Run example_decoder Background (always (Returned None)) [WithMetadata NilSlice])
     = [EvDecode NilSlice]
   \<and> decoded_payloads
       (snd (Run example_decoder Background (always (Returned None)) [WithMetadata NilSlice]))
     = [NilSlice]
   \<and> decoded_payloads (snd (Run example_decoder Background (always (Returned None)) [])) = []
   \<and> decoded_payloads
       (snd (Run example_decoder Background (always (Returned None))
          [WithMetadata NilSlice, WithMetadata (Slice [0]), WithMetadata (Slice [1, 7])]))
     = [Slice [1, 7]]
   \<and> executed_with
       (snd (Run example_decoder Background (always (Returned None))
          [WithMetadata NilSlice, WithMetadata (Slice [0]), WithMetadata (Slice [1, 7])]))
     = [(WithCancel Background, Some [7])]"
proof -
  have tr: "snd (Run example_decoder Background (always (Returned None)) [WithMetadata NilSlice])
     = [EvDecode NilSlice]"
    by (simp add: Run_def Let_def WithMetadata_def always_def)
  have ex: "executed_with
       (snd (Run example_decoder Background (always (Returned None))
          [WithMetadata NilSlice, WithMetadata (Slice [0]), WithMetadata (Slice [1, 7])]))
     = [(WithCancel Background, Some [7])]"
    by (simp add: Run_def Let_def WithMetadata_def always_def)
  show ?thesis
    using tr ex
      WithMetadata_nil_is_not_absence [of example_decoder Background "always (Returned None)"
        "[WithMetadata NilSlice, WithMetadata (Slice [0])]" "Slice [1, 7]"]
    by simp
qed

section \<open>Building plans\<close>

text \<open>
  C5. \<open>Func(f)\<close> fails if and only if \<open>f\<close> is not a function, and for every \<open>f\<close>
  with a dynamic type of another kind the failure is the assertion (InvalidShapeKind);
  for a function it returns the plan. \<open>Struct[T]\<close> fails if and only if the kind of
  \<open>T\<close> is not \<open>reflect.Struct\<close>, always by the assertion; for a struct type it returns
  the plan with the subcommands given.
\<close>

theorem plan_construction_checks_kind:
  "((\<forall>pl. Func f \<noteq> Returned pl) = (\<not> callable f)) \<and>
   (TypeOf f = Some t \<and> Kind t \<noteq> reflect_Func \<longrightarrow>
      Func f = Panicked (AssertionFailure (''not a func: '' @ rtype_String t))) \<and>
   (callable f \<longrightarrow>
      Func f = Returned (FuncPlan (Reflection None (TypeOf f) (Some (ValueOf f))))) \<and>
   ((\<forall>pl. Struct T subs \<noteq> Returned pl) = (Kind T \<noteq> reflect_Struct)) \<and>
   (Kind T \<noteq> reflect_Struct \<longrightarrow>
      Struct T subs = Panicked (AssertionFailure (''not a struct: '' @ rtype_String T))) \<and>
   (Kind T = reflect_Struct \<longrightarrow>
      Struct T subs =
        Returned (StructPlan
          (Reflection (Some (Reflection None (Some (PointerTo T)) None)) (Some T) None) subs))"
proof -
  have "callable f \<Longrightarrow>
      Func f = Returned (FuncPlan (Reflection None (TypeOf f) (Some (ValueOf f))))"
    by (cases f) (simp_all add: Func_def)
  moreover have "TypeOf f = Some t \<Longrightarrow> Kind t \<noteq> reflect_Func \<Longrightarrow>
      Func f = Panicked (AssertionFailure (''not a func: '' @ rtype_String t))"
    by (simp add: Func_def)
  ultimately show ?thesis
    using Func_fails [of f] Struct_fails [of T subs]
    by (simp add: Struct_def)
qed

theorem plan_construction_checks_kind_witness:
  "callable (Any (NamedType ''func(context.Context) error'' reflect_Func) (0::nat))
   \<and> Func (Any (NamedType ''func(context.Context) error'' reflect_Func) (0::nat))
       = Returned (FuncPlan (Reflection None
           (Some (NamedType ''func(context.Context) error'' reflect_Func))
           (Some (Value (NamedType ''func(context.Context) error'' reflect_Func) 0))))
   \<and> TypeOf (Any (NamedType ''int'' reflect_Int) (3::nat)) = Some (NamedType ''int'' reflect_Int)
   \<and> Kind (NamedType ''int'' reflect_Int) \<noteq> reflect_Func
   \<and> Func (Any (NamedType ''int'' reflect_Int) (3::nat))
       = Panicked (AssertionFailure ''not a func: int'')
   \<and> Kind (NamedType ''main.Opts'' reflect_Struct) = reflect_Struct
   \<and> Struct (NamedType ''main.Opts'' reflect_Struct) ([] :: nat structPlan option list)
       = Returned (StructPlan
           (Reflection
              (Some (Reflection None (Some (PointerTo (NamedType ''main.Opts'' reflect_Struct))) None))
              (Some (NamedType ''main.Opts'' reflect_Struct)) None) [])
   \<and> Kind (PointerTo (NamedType ''main.Opts'' reflect_Struct)) \<noteq> reflect_Struct
   \<and> Struct (PointerTo (NamedType ''main.Opts'' reflect_Struct)) ([] :: nat structPlan option list)
       = Panicked (AssertionFailure ''not a struct: *main.Opts'')"
  using
    plan_construction_checks_kind
      [of "Any (NamedType ''func(context.Context) error'' reflect_Func) (0::nat)"
          "NamedType ''func(context.Context) error'' reflect_Func"
          "NamedType ''main.Opts'' reflect_Struct" "[] :: nat structPlan option list"]
    plan_construction_checks_kind
      [of "Any (NamedType ''int'' reflect_Int) (3::nat)" "NamedType ''int'' reflect_Int"
          "PointerTo (NamedType ''main.Opts'' reflect_Struct)" "[] :: nat structPlan option list"]
  by simp

end
